theory Spec2Isabelle
  imports Complex_Main "HOL-Library.Multiset"
begin

section \<open>JavaScript values\<close>

text \<open>
  The collection of \<^verbatim>\<open>src/lib/BpCollection.js\<close> stores arbitrary JavaScript values under
  arbitrary JavaScript keys. The values the model knows are \<open>undefined\<close>, \<open>null\<close>, the
  booleans, the integer-valued numbers (\<open>Num n\<close>, printed in plain decimal as JavaScript
  does below \<open>10^21\<close>), \<open>NaN\<close>, strings, symbols and object references (\<open>Ref a\<close>, an
  object is identified by its address \<open>a\<close>). HOL equality on this type is the
  \<open>SameValueZero\<close> comparison a JavaScript \<open>Map\<close> uses for its keys.
\<close>

datatype jsval =
    Undefined
  | Null
  | Bool bool
  | Num int
  | NaN
  | Str string
  | Sym nat
  | Ref nat

text \<open>The conversion to boolean of \<open>if (x)\<close> and \<open>Boolean(x)\<close>.\<close>

fun truthy :: "jsval \<Rightarrow> bool" where
  "truthy Undefined = False"
| "truthy Null = False"
| "truthy (Bool b) = b"
| "truthy (Num n) = (n \<noteq> 0)"
| "truthy NaN = False"
| "truthy (Str s) = (s \<noteq> [])"
| "truthy (Sym n) = True"
| "truthy (Ref a) = True"

text \<open>The operator \<open>===\<close>: it differs from the key comparison of a \<open>Map\<close> on \<open>NaN\<close> only.\<close>

definition strict_eq :: "jsval \<Rightarrow> jsval \<Rightarrow> bool" where
  "strict_eq a b = (a \<noteq> NaN \<and> a = b)"

subsection \<open>Errors\<close>

text \<open>
  Each error class of the source is a constructor that carries the message given to
  \<open>super\<close>. \<open>TypeError\<close> is the error of the language itself (reading a property of
  \<open>undefined\<close>, calling something that is not a function); its message depends on the
  engine and is left out.
\<close>

datatype error =
    ReadOnlyError string
  | IncompatibleConfigurationError string
  | InvalidArgumentsError string
  | EventsSupportError string
  | TypeError

datatype 'a result = Return 'a | Throw error

text \<open>\<open>new ReadOnlyError(propName)\<close>, as every setter of the source calls it.\<close>

definition new_ReadOnlyError :: "string \<Rightarrow> error" where
  "new_ReadOnlyError propName =
     ReadOnlyError ([CHR 0x27] @ propName @ [CHR 0x27] @ '' is a read-only property.'')"

text \<open>\<open>new EventsSupportError()\<close>: \<open>customMsg || 'Events are not supported.'\<close>.\<close>

definition new_EventsSupportError :: "string option \<Rightarrow> error" where
  "new_EventsSupportError customMsg =
     EventsSupportError
       (case customMsg of
          None \<Rightarrow> ''Events are not supported.''
        | Some m \<Rightarrow> if m \<noteq> [] then m else ''Events are not supported.'')"

subsection \<open>The built-in \<open>Map\<close>\<close>

text \<open>
  A JavaScript \<open>Map\<close> is an association list in insertion order. \<open>set\<close> on a key that is
  present replaces the value where the entry stands, and appends the entry otherwise;
  \<open>delete\<close> says whether an entry was removed. The keys of a \<open>Map\<close> are distinct, so
  \<open>Map_remove\<close>, which drops every entry under the key, drops the one there is.
\<close>

type_synonym jsmap = "(jsval \<times> jsval) list"

primrec Map_set :: "jsval \<Rightarrow> jsval \<Rightarrow> jsmap \<Rightarrow> jsmap" where
  "Map_set k v [] = [(k, v)]"
| "Map_set k v (e # es) = (if fst e = k then (k, v) # es else e # Map_set k v es)"

primrec Map_has :: "jsmap \<Rightarrow> jsval \<Rightarrow> bool" where
  "Map_has [] k = False"
| "Map_has (e # es) k = (if fst e = k then True else Map_has es k)"

primrec Map_get :: "jsmap \<Rightarrow> jsval \<Rightarrow> jsval" where
  "Map_get [] k = Undefined"
| "Map_get (e # es) k = (if fst e = k then snd e else Map_get es k)"

primrec Map_remove :: "jsval \<Rightarrow> jsmap \<Rightarrow> jsmap" where
  "Map_remove k [] = []"
| "Map_remove k (e # es) = (if fst e = k then Map_remove k es else e # Map_remove k es)"

definition Map_delete :: "jsmap \<Rightarrow> jsval \<Rightarrow> bool \<times> jsmap" where
  "Map_delete m k = (Map_has m k, Map_remove k m)"

definition Map_size :: "jsmap \<Rightarrow> int" where
  "Map_size m = int (length m)"

text \<open>
  \<open>Map.prototype.forEach\<close> with a callback that works on a state \<open>'s\<close> of its own (the
  variables its closure captures) and may throw, which ends the traversal.
\<close>

primrec Map_forEach :: "(jsval \<Rightarrow> jsval \<Rightarrow> 's \<Rightarrow> 's result) \<Rightarrow> jsmap \<Rightarrow> 's \<Rightarrow> 's result" where
  "Map_forEach cb [] s = Return s"
| "Map_forEach cb (e # es) s =
     (case cb (snd e) (fst e) s of
        Throw err \<Rightarrow> Throw err
      | Return s' \<Rightarrow> Map_forEach cb es s')"

subsection \<open>Plain objects\<close>

text \<open>
  \<open>toObject\<close> writes into a plain object \<open>{}\<close>. A property key is a string or a symbol:
  \<open>res[key]\<close> converts every other key to a string. The string of an object depends on
  the object, so it is a parameter \<open>ostr\<close>.
\<close>

datatype propkey = PStr string | PSym nat

definition digit_char :: "nat \<Rightarrow> char" where
  "digit_char d = ''0123456789'' ! d"

fun nat_to_string :: "nat \<Rightarrow> string" where
  "nat_to_string n =
     (if n < 10 then [digit_char n] else nat_to_string (n div 10) @ [digit_char (n mod 10)])"

declare nat_to_string.simps [simp del]

definition number_to_string :: "int \<Rightarrow> string" where
  "number_to_string n =
     (if n < 0 then CHR ''-'' # nat_to_string (nat (- n)) else nat_to_string (nat n))"

fun to_property_key :: "(nat \<Rightarrow> string) \<Rightarrow> jsval \<Rightarrow> propkey" where
  "to_property_key ostr Undefined = PStr ''undefined''"
| "to_property_key ostr Null = PStr ''null''"
| "to_property_key ostr (Bool b) = PStr (if b then ''true'' else ''false'')"
| "to_property_key ostr (Num n) = PStr (number_to_string n)"
| "to_property_key ostr NaN = PStr ''NaN''"
| "to_property_key ostr (Str s) = PStr s"
| "to_property_key ostr (Sym n) = PSym n"
| "to_property_key ostr (Ref a) = PStr (ostr a)"

text \<open>
  The own properties of a plain object, in creation order. Assigning to \<open>__proto__\<close>
  runs the setter inherited from \<open>Object.prototype\<close> and creates no own property.
\<close>

type_synonym jsobject = "(propkey \<times> jsval) list"

primrec prop_put :: "propkey \<Rightarrow> jsval \<Rightarrow> jsobject \<Rightarrow> jsobject" where
  "prop_put p v [] = [(p, v)]"
| "prop_put p v (e # es) = (if fst e = p then (p, v) # es else e # prop_put p v es)"

definition Object_set :: "(nat \<Rightarrow> string) \<Rightarrow> jsobject \<Rightarrow> jsval \<Rightarrow> jsval \<Rightarrow> jsobject" where
  "Object_set ostr obj k v =
     (let p = to_property_key ostr k
      in if p = PStr ''__proto__'' then obj else prop_put p v obj)"

text \<open>The own enumerable string-keyed properties, which \<open>Object.entries\<close> lists.\<close>

fun Object_entries :: "jsobject \<Rightarrow> (string \<times> jsval) list" where
  "Object_entries [] = []"
| "Object_entries ((PStr s, v) # es) = (s, v) # Object_entries es"
| "Object_entries ((PSym n, v) # es) = Object_entries es"

section \<open>The collection\<close>

text \<open>
  The fields of a \<open>BulletproofCollection\<close>: \<open>_keyExtractor\<close> (absent or a function),
  \<open>_enableEvents\<close>, the event emitter \<open>_ec\<close> (absent, or the events emitted so far, oldest
  first) and the backing \<open>_map\<close>. Key extractors and the callbacks of the traversals are
  pure functions; the listeners of the emitter are outside the model.
\<close>

datatype event = Event string jsval jsval

record collection =
  c_keyExtractor :: "(jsval \<Rightarrow> jsval) option"
  c_enableEvents :: bool
  c_ec :: "event list option"
  c_map :: jsmap

record config =
  cfg_keyExtractor :: "(jsval \<Rightarrow> jsval) option"
  cfg_enableEvents :: jsval

definition defaultBulletproofConfig :: config where
  "defaultBulletproofConfig = \<lparr>cfg_keyExtractor = None, cfg_enableEvents = Bool False\<rparr>"

definition emit :: "string \<Rightarrow> jsval \<Rightarrow> jsval \<Rightarrow> collection \<Rightarrow> collection" where
  "emit name v k c =
     (case c_ec c of
        None \<Rightarrow> c
      | Some evs \<Rightarrow> c\<lparr>c_ec := Some (evs @ [Event name v k])\<rparr>)"

definition reset :: "collection \<Rightarrow> collection" where
  "reset c = c\<lparr>c_map := []\<rparr>"

text \<open>\<open>EventCenter\<close> is the emitter class of the host, or \<open>undefined\<close> where there is none.\<close>

definition activateEvents :: "bool \<Rightarrow> collection \<Rightarrow> unit result \<times> collection" where
  "activateEvents EventCenter c =
     (if EventCenter then (Return (), c\<lparr>c_ec := Some []\<rparr>)
      else (Throw (new_EventsSupportError None), c))"

text \<open>
  The constructor. Its argument is absent (\<open>None\<close>) or a configuration object; it reads
  \<open>config.keyExtractor\<close> first, which throws a \<open>TypeError\<close> on an absent argument.
\<close>

definition new_BulletproofCollection :: "bool \<Rightarrow> config option \<Rightarrow> collection result" where
  "new_BulletproofCollection EventCenter config =
     (case config of
        None \<Rightarrow> Throw TypeError
      | Some cfg \<Rightarrow>
          (let c = \<lparr>c_keyExtractor = cfg_keyExtractor cfg,
                    c_enableEvents = truthy (cfg_enableEvents cfg),
                    c_ec = None,
                    c_map = []\<rparr>
           in if c_enableEvents c
              then (case activateEvents EventCenter c of
                      (Throw err, _) \<Rightarrow> Throw err
                    | (Return _, c') \<Rightarrow> Return (reset c'))
              else Return (reset c)))"

subsection \<open>Properties\<close>

definition size_bp :: "collection \<Rightarrow> int" where
  "size_bp c = Map_size (c_map c)"

definition lastIndex :: "collection \<Rightarrow> jsval" where
  "lastIndex c = (if size_bp c = 0 then Undefined else Num (size_bp c - 1))"

text \<open>The three iterators, as the sequences they yield.\<close>

definition iterator :: "collection \<Rightarrow> jsval list" where
  "iterator c = map snd (c_map c)"

definition keys :: "collection \<Rightarrow> jsval list" where
  "keys c = map fst (c_map c)"

definition keysAndValues :: "collection \<Rightarrow> (jsval \<times> jsval) list" where
  "keysAndValues c = c_map c"

definition first :: "collection \<Rightarrow> jsval" where
  "first c = (case iterator c of [] \<Rightarrow> Undefined | v # _ \<Rightarrow> v)"

fun index_loop :: "jsval list \<Rightarrow> int \<Rightarrow> jsval \<Rightarrow> jsval" where
  "index_loop [] n i = Undefined"
| "index_loop (v # vs) n i = (if strict_eq (Num n) i then v else index_loop vs (n + 1) i)"

definition index :: "collection \<Rightarrow> jsval \<Rightarrow> jsval" where
  "index c i = index_loop (iterator c) 0 i"

definition indexToKey :: "collection \<Rightarrow> jsval \<Rightarrow> jsval" where
  "indexToKey c i = index_loop (keys c) 0 i"

definition last_bp :: "collection \<Rightarrow> jsval" where
  "last_bp c = (let li = lastIndex c in if li \<noteq> Undefined then index c li else Undefined)"

text \<open>The setters of the read-only properties: each one throws, whatever is assigned.\<close>

definition set_lastIndex :: "collection \<Rightarrow> jsval \<Rightarrow> unit result \<times> collection" where
  "set_lastIndex c i = (Throw (new_ReadOnlyError ''lastIndex''), c)"

definition set_size :: "collection \<Rightarrow> jsval \<Rightarrow> unit result \<times> collection" where
  "set_size c s = (Throw (new_ReadOnlyError ''size''), c)"

definition set_first :: "collection \<Rightarrow> jsval \<Rightarrow> unit result \<times> collection" where
  "set_first c f = (Throw (new_ReadOnlyError ''first''), c)"

definition set_last :: "collection \<Rightarrow> jsval \<Rightarrow> unit result \<times> collection" where
  "set_last c l = (Throw (new_ReadOnlyError ''last''), c)"

definition set_keys :: "collection \<Rightarrow> jsval \<Rightarrow> unit result \<times> collection" where
  "set_keys c k = (Throw (new_ReadOnlyError ''keys''), c)"

definition set_keysAndValues :: "collection \<Rightarrow> jsval \<Rightarrow> unit result \<times> collection" where
  "set_keysAndValues c k = (Throw (new_ReadOnlyError ''keysAndValues''), c)"

subsection \<open>Basic methods\<close>

text \<open>
  A method that writes to the collection returns its outcome and the collection after the
  call. \<open>addCustom\<close> and \<open>add\<close> return \<open>this\<close>, which is the second component.
\<close>

definition addCustom :: "collection \<Rightarrow> jsval \<Rightarrow> jsval \<Rightarrow> unit result \<times> collection" where
  "addCustom c k v =
     (if k = Undefined
      then (Throw (InvalidArgumentsError
                     ([CHR 0x27] @ ''undefined'' @ [CHR 0x27] @ '' keys are not allowed.'')), c)
      else (Return (), emit ''add'' v k (c\<lparr>c_map := Map_set k v (c_map c)\<rparr>)))"

definition add :: "collection \<Rightarrow> jsval \<Rightarrow> unit result \<times> collection" where
  "add c v =
     (case c_keyExtractor c of
        None \<Rightarrow> (Throw TypeError, c)
      | Some f \<Rightarrow> addCustom c (f v) v)"

definition key :: "collection \<Rightarrow> jsval \<Rightarrow> jsval" where
  "key c k = Map_get (c_map c) k"

definition hasKey :: "collection \<Rightarrow> jsval \<Rightarrow> bool" where
  "hasKey c k = Map_has (c_map c) k"

definition removeKey :: "collection \<Rightarrow> jsval \<Rightarrow> jsval result \<times> collection" where
  "removeKey c k =
     (let v = key c k;
          (deleted, m) = Map_delete (c_map c) k;
          c' = c\<lparr>c_map := m\<rparr>
      in (Return v, if deleted then emit ''remove'' v k c' else c'))"

definition removeIndex :: "collection \<Rightarrow> jsval \<Rightarrow> jsval result \<times> collection" where
  "removeIndex c i = removeKey c (indexToKey c i)"

text \<open>
  \<open>randomBetween\<close>, on integer bounds (where \<open>Math.ceil\<close> and \<open>Math.floor\<close> change
  nothing); \<open>r\<close> is what \<open>Math.random()\<close> returns, a number with \<open>0 \<le> r < 1\<close>. With a
  bound that is no number the arithmetic gives \<open>NaN\<close>.
\<close>

definition randomBetween :: "real \<Rightarrow> int \<Rightarrow> int \<Rightarrow> int" where
  "randomBetween r lo hi = \<lfloor>r * of_int (hi - lo + 1)\<rfloor> + lo"

definition randomKey :: "real \<Rightarrow> collection \<Rightarrow> jsval" where
  "randomKey r c =
     (if size_bp c \<noteq> 0
      then (case lastIndex c of
              Num hi \<Rightarrow> indexToKey c (Num (randomBetween r 0 hi))
            | _ \<Rightarrow> indexToKey c NaN)
      else Undefined)"

definition random_bp :: "real \<Rightarrow> collection \<Rightarrow> jsval" where
  "random_bp r c = key c (randomKey r c)"

definition pullRandomKey :: "real \<Rightarrow> collection \<Rightarrow> jsval result \<times> collection" where
  "pullRandomKey r c =
     (let randKey = randomKey r c
      in (Return randKey, snd (removeKey c randKey)))"

definition pullRandom :: "real \<Rightarrow> collection \<Rightarrow> jsval result \<times> collection" where
  "pullRandom r c = removeKey c (randomKey r c)"

subsection \<open>Traversals\<close>

text \<open>
  A callback \<open>fn\<close> of \<open>forEach\<close> is called with the value, the key and the collection. In
  \<open>forEach\<close> itself it works on a state of its own and may throw; the callbacks given to
  \<open>map\<close> and \<open>filter\<close> return a value. No callback writes to the collection under
  traversal, and \<open>thisArg\<close>, which only binds \<open>this\<close> inside the callback, is part of
  the function \<open>fn\<close>.
\<close>

definition forEach ::
  "(jsval \<Rightarrow> jsval \<Rightarrow> collection \<Rightarrow> 's \<Rightarrow> 's result) \<Rightarrow> collection \<Rightarrow> 's \<Rightarrow> 's result" where
  "forEach fn c s = Map_forEach (\<lambda>v k. fn v k c) (c_map c) s"

definition map_bp :: "(jsval \<Rightarrow> jsval \<Rightarrow> collection \<Rightarrow> jsval) \<Rightarrow> collection \<Rightarrow> jsval list result" where
  "map_bp fn c = forEach (\<lambda>v k bpc res. Return (res @ [fn v k bpc])) c []"

definition filter_bp ::
  "bool \<Rightarrow> (jsval \<Rightarrow> jsval \<Rightarrow> collection \<Rightarrow> jsval) \<Rightarrow> collection \<Rightarrow> collection result \<times> collection" where
  "filter_bp EventCenter fn c =
     (case new_BulletproofCollection EventCenter
             (Some \<lparr>cfg_keyExtractor = c_keyExtractor c, cfg_enableEvents = Undefined\<rparr>) of
        Throw err \<Rightarrow> (Throw err, c)
      | Return res0 \<Rightarrow>
          (forEach
             (\<lambda>v k bpc res.
                if truthy (fn v k bpc)
                then (case addCustom res k v of
                        (Throw err, _) \<Rightarrow> Throw err
                      | (Return _, res') \<Rightarrow> Return res')
                else Return res)
             c res0, c))"

definition filterToArray ::
  "(jsval \<Rightarrow> jsval \<Rightarrow> collection \<Rightarrow> jsval) \<Rightarrow> collection \<Rightarrow> jsval list result" where
  "filterToArray fn c =
     forEach (\<lambda>v k bpc res. Return (if truthy (fn v k bpc) then res @ [v] else res)) c []"

definition toObject :: "(nat \<Rightarrow> string) \<Rightarrow> collection \<Rightarrow> jsobject result" where
  "toObject ostr c = forEach (\<lambda>v k bpc res. Return (Object_set ostr res k v)) c []"

definition toMap :: "collection \<Rightarrow> jsmap result" where
  "toMap c = forEach (\<lambda>v k bpc res. Return (Map_set k v res)) c []"


section \<open>Scenarios\<close>

text \<open>
  Inserting a sequence of entries one after the other with \<open>addCustom\<close>; the first
  throw ends the sequence.
\<close>

fun insert_in_order :: "collection \<Rightarrow> (jsval \<times> jsval) list \<Rightarrow> unit result \<times> collection" where
  "insert_in_order c [] = (Return (), c)"
| "insert_in_order c (e # es) =
     (case addCustom c (fst e) (snd e) of
        (Throw err, c') \<Rightarrow> (Throw err, c')
      | (Return _, c') \<Rightarrow> insert_in_order c' es)"

text \<open>
  Re-inserting the pairs listed from a plain object, whose keys are strings, into a
  collection.
\<close>

definition reinsert :: "collection \<Rightarrow> (string \<times> jsval) list \<Rightarrow> unit result \<times> collection" where
  "reinsert c ps = insert_in_order c (map (\<lambda>p. (Str (fst p), snd p)) ps)"

text \<open>A key that a plain object keeps as it is: a string other than \<open>__proto__\<close>.\<close>

fun is_string_key :: "jsval \<Rightarrow> bool" where
  "is_string_key (Str s) = (s \<noteq> ''__proto__'')"
| "is_string_key _ = False"

text \<open>The string of an object that inherits \<open>Object.prototype.toString\<close>.\<close>

definition plain_object_string :: "nat \<Rightarrow> string" where
  "plain_object_string a = ''[object Object]''"

text \<open>
  What the backing \<open>Map\<close> and the guard of \<open>addCustom\<close> maintain: the keys are distinct
  and none of them is \<open>undefined\<close>.
\<close>

definition wellformed :: "collection \<Rightarrow> bool" where
  "wellformed c \<longleftrightarrow> distinct (keys c) \<and> Undefined \<notin> set (keys c)"

text \<open>The callback of \<open>forEach\<close> that notes each entry it is called with.\<close>

definition record_entry ::
  "jsval \<Rightarrow> jsval \<Rightarrow> collection \<Rightarrow> (jsval \<times> jsval) list \<Rightarrow> (jsval \<times> jsval) list result" where
  "record_entry v k bpc seen = Return (seen @ [(k, v)])"

text \<open>The callbacks \<open>(v, k) => k\<close>, \<open>v => v\<close> and, on numbers, \<open>v => v > 2\<close>.\<close>

definition key_callback :: "jsval \<Rightarrow> jsval \<Rightarrow> collection \<Rightarrow> jsval" where
  "key_callback v k bpc = k"

definition value_callback :: "jsval \<Rightarrow> jsval \<Rightarrow> collection \<Rightarrow> jsval" where
  "value_callback v k bpc = v"

definition greater_than_2 :: "jsval \<Rightarrow> jsval \<Rightarrow> collection \<Rightarrow> jsval" where
  "greater_than_2 v k bpc = (case v of Num n \<Rightarrow> Bool (2 < n) | _ \<Rightarrow> Bool False)"

text \<open>Example collections: the one \<open>new BulletproofCollection({})\<close> gives, and some entries.\<close>

definition empty_collection :: collection where
  "empty_collection = \<lparr>c_keyExtractor = None, c_enableEvents = False, c_ec = None, c_map = []\<rparr>"

definition one_to_five :: collection where
  "one_to_five =
     \<lparr>c_keyExtractor = None, c_enableEvents = True, c_ec = Some [],
      c_map = [(Num 1, Num 1), (Num 2, Num 2), (Num 3, Num 3), (Num 4, Num 4), (Num 5, Num 5)]\<rparr>"

definition abc_entries :: "(jsval \<times> jsval) list" where
  "abc_entries = [(Str ''a'', Num 1), (Str ''b'', Num 0), (Str ''c'', Ref 7)]"

definition abc_collection :: collection where
  "abc_collection =
     \<lparr>c_keyExtractor = None, c_enableEvents = False, c_ec = None, c_map = abc_entries\<rparr>"

definition mixed_keys :: collection where
  "mixed_keys =
     \<lparr>c_keyExtractor = None, c_enableEvents = False, c_ec = None,
      c_map = [(Num 1, Str ''a''), (Str ''1'', Str ''b'')]\<rparr>"


section \<open>Facts about the backing map\<close>

lemma Map_has_iff: "Map_has m k \<longleftrightarrow> k \<in> fst ` set m"
  by (induction m) auto

lemma Map_set_fresh: "k \<notin> fst ` set m \<Longrightarrow> Map_set k v m = m @ [(k, v)]"
  by (induction m) auto

lemma Map_get_set: "Map_get (Map_set k v m) k = v"
  by (induction m) auto

lemma Map_has_set: "Map_has (Map_set k v m) k' \<longleftrightarrow> k' = k \<or> Map_has m k'"
  by (induction m) auto

lemma length_Map_set:
  "length (Map_set k v m) = (if Map_has m k then length m else Suc (length m))"
  by (induction m) auto

lemma keys_Map_set:
  "map fst (Map_set k v m) = (if Map_has m k then map fst m else map fst m @ [k])"
  by (induction m) auto

lemma Map_has_remove: "Map_has (Map_remove k m) k' \<longleftrightarrow> k' \<noteq> k \<and> Map_has m k'"
  by (induction m) auto

lemma Map_get_remove: "Map_get (Map_remove k m) k = Undefined"
  by (induction m) auto

lemma Map_remove_absent: "\<not> Map_has m k \<Longrightarrow> Map_remove k m = m"
  by (induction m) auto

lemma keys_Map_remove: "map fst (Map_remove k m) = removeAll k (map fst m)"
  by (induction m) auto

lemma Map_get_entry: "distinct (map fst m) \<Longrightarrow> (k, v) \<in> set m \<Longrightarrow> Map_get m k = v"
  by (induction m) (auto simp: rev_image_eqI)

lemma length_Map_remove:
  "distinct (map fst m) \<Longrightarrow> Map_has m k \<Longrightarrow> Suc (length (Map_remove k m)) = length m"
  by (induction m) (auto simp: Map_remove_absent Map_has_iff)

lemma prop_put_fresh: "p \<notin> fst ` set obj \<Longrightarrow> prop_put p v obj = obj @ [(p, v)]"
  by (induction obj) auto

lemma Object_entries_strings: "Object_entries (map (\<lambda>p. (PStr (fst p), snd p)) ss) = ss"
  by (induction ss) auto

section \<open>Facts about the methods\<close>

lemma c_map_emit: "c_map (emit n v k c) = c_map c"
  by (simp add: emit_def split: option.splits)

lemma c_map_addCustom:
  "k \<noteq> Undefined \<Longrightarrow> c_map (snd (addCustom c k v)) = Map_set k v (c_map c)"
  by (simp add: addCustom_def c_map_emit)

lemma fst_addCustom: "k \<noteq> Undefined \<Longrightarrow> fst (addCustom c k v) = Return ()"
  by (simp add: addCustom_def)

lemma c_map_removeKey: "c_map (snd (removeKey c k)) = Map_remove k (c_map c)"
  by (simp add: removeKey_def Map_delete_def Let_def c_map_emit)

lemma removeKey_absent: "\<not> hasKey c k \<Longrightarrow> removeKey c k = (Return (key c k), c)"
  by (simp add: removeKey_def Map_delete_def Let_def hasKey_def Map_remove_absent)

subsection \<open>Every collection is well formed\<close>

lemma wellformed_new:
  "new_BulletproofCollection EventCenter config = Return c \<Longrightarrow> wellformed c"
  by (auto simp: new_BulletproofCollection_def activateEvents_def reset_def wellformed_def
      keys_def Let_def split: option.splits if_splits)

lemma wellformed_addCustom: "wellformed c \<Longrightarrow> wellformed (snd (addCustom c k v))"
proof (cases "k = Undefined")
  case True
  assume "wellformed c"
  with True show ?thesis by (simp add: addCustom_def)
next
  case False
  assume "wellformed c"
  with False show ?thesis
    using c_map_addCustom [OF False, of c v]
    by (auto simp: wellformed_def keys_def keys_Map_set Map_has_iff split: if_splits)
qed

lemma wellformed_add: "wellformed c \<Longrightarrow> wellformed (snd (add c v))"
  by (simp add: add_def wellformed_addCustom split: option.splits)

lemma wellformed_removeKey: "wellformed c \<Longrightarrow> wellformed (snd (removeKey c k))"
  using c_map_removeKey [of c k]
  by (simp add: wellformed_def keys_def keys_Map_remove distinct_removeAll)

lemma wellformed_removeIndex: "wellformed c \<Longrightarrow> wellformed (snd (removeIndex c i))"
  by (simp add: removeIndex_def wellformed_removeKey)

lemma wellformed_pullRandomKey: "wellformed c \<Longrightarrow> wellformed (snd (pullRandomKey r c))"
  by (simp add: pullRandomKey_def Let_def wellformed_removeKey)

lemma wellformed_pullRandom: "wellformed c \<Longrightarrow> wellformed (snd (pullRandom r c))"
  by (simp add: pullRandom_def wellformed_removeKey)

lemma wellformed_reset: "wellformed (reset c)"
  by (simp add: reset_def wellformed_def keys_def)

subsection \<open>Traversals as list functions\<close>

lemma insert_in_order_fresh:
  "distinct (map fst es) \<Longrightarrow> Undefined \<notin> fst ` set es \<Longrightarrow>
   fst ` set (c_map c) \<inter> fst ` set es = {} \<Longrightarrow>
   fst (insert_in_order c es) = Return () \<and> c_map (snd (insert_in_order c es)) = c_map c @ es"
proof (induction es arbitrary: c)
  case Nil
  then show ?case by simp
next
  case (Cons e es)
  from Cons.prems have k: "fst e \<noteq> Undefined" by auto
  obtain c' where ac: "addCustom c (fst e) (snd e) = (Return (), c')"
    using fst_addCustom [OF k, of c "snd e"] by (cases "addCustom c (fst e) (snd e)") auto
  from Cons.prems have "fst e \<notin> fst ` set (c_map c)" by auto
  then have m: "c_map c' = c_map c @ [e]"
    using c_map_addCustom [OF k, of c "snd e"] ac by (simp add: Map_set_fresh)
  have "fst ` set (c_map c') \<inter> fst ` set es = {}"
    using Cons.prems m by auto
  with Cons.IH [of c'] Cons.prems
  have "fst (insert_in_order c' es) = Return () \<and>
        c_map (snd (insert_in_order c' es)) = c_map c' @ es" by simp
  with ac m show ?case by simp
qed

lemma Map_forEach_push:
  "Map_forEach (\<lambda>v k res. Return (res @ [f v k])) es acc
     = Return (acc @ map (\<lambda>e. f (snd e) (fst e)) es)"
  by (induction es arbitrary: acc) auto

lemma Map_forEach_filter:
  "distinct (map fst es) \<Longrightarrow> Undefined \<notin> fst ` set es \<Longrightarrow>
   fst ` set (c_map res) \<inter> fst ` set es = {} \<Longrightarrow> c_ec res = None \<Longrightarrow>
   Map_forEach
     (\<lambda>v k res.
        if P v k
        then (case addCustom res k v of
                (Throw err, _) \<Rightarrow> Throw err
              | (Return _, res') \<Rightarrow> Return res')
        else Return res) es res
   = Return (res\<lparr>c_map := c_map res @ filter (\<lambda>e. P (snd e) (fst e)) es\<rparr>)"
proof (induction es arbitrary: res)
  case Nil
  then show ?case by simp
next
  case (Cons e es)
  show ?case
  proof (cases "P (snd e) (fst e)")
    case False
    with Cons.IH [of res] Cons.prems show ?thesis by simp
  next
    case True
    from Cons.prems have k: "fst e \<noteq> Undefined" and fr: "fst e \<notin> fst ` set (c_map res)"
      by auto
    let ?res' = "res\<lparr>c_map := c_map res @ [e]\<rparr>"
    have ac: "addCustom res (fst e) (snd e) = (Return (), ?res')"
      using k fr Cons.prems(4) by (simp add: addCustom_def emit_def Map_set_fresh)
    have "fst ` set (c_map ?res') \<inter> fst ` set es = {}" "c_ec ?res' = None"
      using Cons.prems by auto
    with Cons.IH [of ?res'] Cons.prems
    have "Map_forEach
     (\<lambda>v k res.
        if P v k
        then (case addCustom res k v of
                (Throw err, _) \<Rightarrow> Throw err
              | (Return _, res') \<Rightarrow> Return res')
        else Return res) es ?res'
      = Return (?res'\<lparr>c_map := c_map ?res' @ filter (\<lambda>e. P (snd e) (fst e)) es\<rparr>)"
      by simp
    with True ac show ?thesis by simp
  qed
qed

lemma filter_bp_eq:
  assumes "distinct (keys c)" and "Undefined \<notin> set (keys c)"
  shows "filter_bp EventCenter fn c
         = (Return \<lparr>c_keyExtractor = c_keyExtractor c, c_enableEvents = False, c_ec = None,
                     c_map = filter (\<lambda>e. truthy (fn (snd e) (fst e) c)) (keysAndValues c)\<rparr>, c)"
proof -
  let ?res0 = "\<lparr>c_keyExtractor = c_keyExtractor c, c_enableEvents = False, c_ec = None,
                 c_map = []\<rparr>"
  have n: "new_BulletproofCollection EventCenter
             (Some \<lparr>cfg_keyExtractor = c_keyExtractor c, cfg_enableEvents = Undefined\<rparr>)
           = Return ?res0"
    by (simp add: new_BulletproofCollection_def reset_def)
  have "Map_forEach
     (\<lambda>v k res.
        if truthy (fn v k c)
        then (case addCustom res k v of
                (Throw err, _) \<Rightarrow> Throw err
              | (Return _, res') \<Rightarrow> Return res')
        else Return res) (c_map c) ?res0
     = Return (?res0\<lparr>c_map := c_map ?res0 @ filter (\<lambda>e. truthy (fn (snd e) (fst e) c)) (c_map c)\<rparr>)"
    using assms by (intro Map_forEach_filter) (auto simp: keys_def)
  with n show ?thesis
    by (simp add: filter_bp_def forEach_def keysAndValues_def)
qed

lemma Map_forEach_toObject:
  "distinct (map fst ss) \<Longrightarrow> ''__proto__'' \<notin> fst ` set ss \<Longrightarrow>
   PStr ` fst ` set ss \<inter> fst ` set acc = {} \<Longrightarrow>
   Map_forEach (\<lambda>v k res. Return (Object_set ostr res k v))
     (map (\<lambda>p. (Str (fst p), snd p)) ss) acc
   = Return (acc @ map (\<lambda>p. (PStr (fst p), snd p)) ss)"
proof (induction ss arbitrary: acc)
  case Nil
  then show ?case by simp
next
  case (Cons p ss)
  from Cons.prems have np: "fst p \<noteq> ''__proto__''" and fr: "PStr (fst p) \<notin> fst ` set acc"
    by auto
  then have st: "Object_set ostr acc (Str (fst p)) (snd p) = acc @ [(PStr (fst p), snd p)]"
    by (simp add: Object_set_def prop_put_fresh)
  have "PStr ` fst ` set ss \<inter> fst ` set (acc @ [(PStr (fst p), snd p)]) = {}"
    using Cons.prems by auto
  with Cons.IH [of "acc @ [(PStr (fst p), snd p)]"] Cons.prems st show ?case by simp
qed

lemma string_keys_obtain:
  "list_all is_string_key (map fst es) \<Longrightarrow>
   \<exists>ss. es = map (\<lambda>p. (Str (fst p), snd p)) ss \<and> ''__proto__'' \<notin> fst ` set ss"
proof (induction es)
  case Nil
  then show ?case by simp
next
  case (Cons e es)
  then obtain ss where ss: "es = map (\<lambda>p. (Str (fst p), snd p)) ss" "''__proto__'' \<notin> fst ` set ss"
    by auto
  from Cons.prems obtain s where s: "fst e = Str s" "s \<noteq> ''__proto__''"
    by (cases "fst e") auto
  then have "e # es = map (\<lambda>p. (Str (fst p), snd p)) ((s, snd e) # ss)"
    using ss by (cases e) simp
  moreover have "''__proto__'' \<notin> fst ` set ((s, snd e) # ss)"
    using ss s by auto
  ultimately show ?case by (intro exI [of _ "(s, snd e) # ss"] conjI)
qed


section \<open>The claims\<close>

subsection \<open>C1: absent keys\<close>

text \<open>
  C1, as amended. For every value \<open>v\<close>, \<open>addCustom(undefined, v)\<close> throws an
  \<open>InvalidArgumentsError\<close> and leaves the collection as it was, so an empty collection
  stays empty; and whatever key and value \<open>addCustom\<close> is called with, a collection
  without the key \<open>undefined\<close> has none afterwards. The guard of the source is
  \<open>key === undefined\<close>: \<open>null\<close> passes it and is stored like any other key.
\<close>

theorem addCustom_undefined_key:
  "addCustom c Undefined v
     = (Throw (InvalidArgumentsError
                 ([CHR 0x27] @ ''undefined'' @ [CHR 0x27] @ '' keys are not allowed.'')), c)
   \<and> (Undefined \<notin> set (keys c) \<longrightarrow> Undefined \<notin> set (keys (snd (addCustom c k w))))"
proof -
  have "Undefined \<notin> set (keys (snd (addCustom c k w)))" if "Undefined \<notin> set (keys c)"
  proof (cases "k = Undefined")
    case True
    with that show ?thesis by (simp add: addCustom_def)
  next
    case False
    with that show ?thesis
      using c_map_addCustom [OF False, of c w]
      by (auto simp: keys_def keys_Map_set split: if_splits)
  qed
  then show ?thesis by (simp add: addCustom_def)
qed

theorem addCustom_undefined_key_witness:
  "addCustom abc_collection Undefined (Str ''x'')
     = (Throw (InvalidArgumentsError
                 ([CHR 0x27] @ ''undefined'' @ [CHR 0x27] @ '' keys are not allowed.'')),
        abc_collection)
   \<and> Undefined \<notin> set (keys abc_collection)
   \<and> Undefined \<notin> set (keys (snd (addCustom abc_collection Null (Str ''y''))))"
  using addCustom_undefined_key [of abc_collection "Str ''x''" Null "Str ''y''"]
  by (simp add: keys_def abc_collection_def abc_entries_def)

text \<open>
  C1 as stated fails at \<open>null\<close>: on the empty collection \<open>addCustom(null, 'x')\<close>
  returns normally and the collection holds the entry \<open>null \<mapsto> 'x'\<close>.
\<close>

theorem addCustom_null_counterexample:
  "fst (addCustom empty_collection Null (Str ''x'')) = Return ()
   \<and> keysAndValues (snd (addCustom empty_collection Null (Str ''x''))) = [(Null, Str ''x'')]
   \<and> size_bp (snd (addCustom empty_collection Null (Str ''x''))) = 1"
  by (simp add: addCustom_def emit_def keysAndValues_def size_bp_def Map_size_def
      empty_collection_def)

subsection \<open>C2: the postcondition of \<open>addCustom\<close>\<close>

text \<open>
  C2. For every key \<open>k\<close> other than \<open>undefined\<close> and every value \<open>v\<close>,
  \<open>addCustom(k, v)\<close> returns normally, and afterwards \<open>key(k)\<close> is \<open>v\<close>, \<open>hasKey(k)\<close>
  is true, \<open>size\<close> has grown by exactly one if \<open>k\<close> was new and is the same if \<open>k\<close>
  was present; in that case the sequence of keys, hence the position of \<open>k\<close> in the
  iteration order, is the same too.
\<close>

theorem addCustom_postcondition:
  assumes "k \<noteq> Undefined"
  shows "fst (addCustom c k v) = Return ()
       \<and> key (snd (addCustom c k v)) k = v
       \<and> hasKey (snd (addCustom c k v)) k
       \<and> size_bp (snd (addCustom c k v)) = (if hasKey c k then size_bp c else size_bp c + 1)
       \<and> (hasKey c k \<longrightarrow> keys (snd (addCustom c k v)) = keys c)"
  using assms
  by (simp add: addCustom_def emit_def key_def hasKey_def size_bp_def Map_size_def keys_def
      Map_get_set Map_has_set length_Map_set keys_Map_set split: option.splits)

theorem addCustom_postcondition_witness:
  "Str ''b'' \<noteq> Undefined
   \<and> hasKey abc_collection (Str ''b'')
   \<and> fst (addCustom abc_collection (Str ''b'') (Num 9)) = Return ()
   \<and> key (snd (addCustom abc_collection (Str ''b'') (Num 9))) (Str ''b'') = Num 9
   \<and> hasKey (snd (addCustom abc_collection (Str ''b'') (Num 9))) (Str ''b'')
   \<and> size_bp (snd (addCustom abc_collection (Str ''b'') (Num 9))) = 3
   \<and> keys (snd (addCustom abc_collection (Str ''b'') (Num 9))) = [Str ''a'', Str ''b'', Str ''c'']"
  using addCustom_postcondition [of "Str ''b''" abc_collection "Num 9"]
  by (simp add: hasKey_def size_bp_def Map_size_def keys_def abc_collection_def abc_entries_def)

subsection \<open>C3: insertion order\<close>

text \<open>
  C3. Insert entries with distinct keys, none of them \<open>undefined\<close>, in a given order
  into an empty collection; the three keys \<open>[a, b, c]\<close> are the case of a list of length
  three. Every insertion returns normally, and every traversal sees the entries in that
  order: the \<open>keys\<close> sequence, the default iteration over the values,
  \<open>keysAndValues\<close>, the calls of a \<open>forEach\<close> callback, the results of \<open>map\<close>, and
  the entries of the collection \<open>filter\<close> returns, which are the surviving ones in the
  same relative order. Keys and values are arbitrary JavaScript values.
\<close>

theorem insertion_order_observed:
  assumes "c_map c0 = []" and "distinct (map fst kvs)" and "Undefined \<notin> set (map fst kvs)"
  shows "fst (insert_in_order c0 kvs) = Return ()
       \<and> keys (snd (insert_in_order c0 kvs)) = map fst kvs
       \<and> iterator (snd (insert_in_order c0 kvs)) = map snd kvs
       \<and> keysAndValues (snd (insert_in_order c0 kvs)) = kvs
       \<and> forEach record_entry (snd (insert_in_order c0 kvs)) [] = Return kvs
       \<and> map_bp fn (snd (insert_in_order c0 kvs))
           = Return (map (\<lambda>e. fn (snd e) (fst e) (snd (insert_in_order c0 kvs))) kvs)
       \<and> map_result keysAndValues (fst (filter_bp EventCenter p (snd (insert_in_order c0 kvs))))
           = Return (filter (\<lambda>e. truthy (p (snd e) (fst e) (snd (insert_in_order c0 kvs)))) kvs)"
proof -
  let ?c = "snd (insert_in_order c0 kvs)"
  have io: "fst (insert_in_order c0 kvs) = Return ()" and m: "c_map ?c = kvs"
    using insert_in_order_fresh [of kvs c0] assms by auto
  have d: "distinct (keys ?c)" "Undefined \<notin> set (keys ?c)"
    using assms m by (auto simp: keys_def)
  have "(\<lambda>v k. record_entry v k ?c) = (\<lambda>v k seen. Return (seen @ [(k, v)]))"
    by (simp add: fun_eq_iff record_entry_def)
  then have "forEach record_entry ?c [] = Map_forEach (\<lambda>v k seen. Return (seen @ [(k, v)])) kvs []"
    using m by (simp add: forEach_def)
  then have fe: "forEach record_entry ?c [] = Return kvs"
    using Map_forEach_push [of "\<lambda>v k. (k, v)" kvs "[]"] by simp
  have mp: "map_bp fn ?c = Return (map (\<lambda>e. fn (snd e) (fst e) ?c) kvs)"
    using Map_forEach_push [of "\<lambda>v k. fn v k ?c" kvs "[]"] m by (simp add: map_bp_def forEach_def)
  have fl: "map_result keysAndValues (fst (filter_bp EventCenter p ?c))
           = Return (filter (\<lambda>e. truthy (p (snd e) (fst e) ?c)) kvs)"
    using filter_bp_eq [OF d, of EventCenter p] m by (simp add: keysAndValues_def)
  from io m fe mp fl show ?thesis
    by (simp add: keys_def iterator_def keysAndValues_def)
qed

theorem insertion_order_observed_witness:
  "c_map empty_collection = []
   \<and> distinct (map fst abc_entries) \<and> Undefined \<notin> set (map fst abc_entries)
   \<and> fst (insert_in_order empty_collection abc_entries) = Return ()
   \<and> keys (snd (insert_in_order empty_collection abc_entries)) = [Str ''a'', Str ''b'', Str ''c'']
   \<and> iterator (snd (insert_in_order empty_collection abc_entries)) = [Num 1, Num 0, Ref 7]
   \<and> keysAndValues (snd (insert_in_order empty_collection abc_entries)) = abc_entries
   \<and> forEach record_entry (snd (insert_in_order empty_collection abc_entries)) []
       = Return abc_entries
   \<and> map_bp key_callback (snd (insert_in_order empty_collection abc_entries))
       = Return [Str ''a'', Str ''b'', Str ''c'']
   \<and> map_result keysAndValues
         (fst (filter_bp True value_callback (snd (insert_in_order empty_collection abc_entries))))
       = Return [(Str ''a'', Num 1), (Str ''c'', Ref 7)]"
  using insertion_order_observed [of empty_collection abc_entries key_callback True value_callback]
  by (simp add: empty_collection_def abc_entries_def key_callback_def value_callback_def)


subsection \<open>C4: \<open>toObject\<close> and back\<close>

text \<open>
  C4, as amended. Take a collection whose keys are all strings other than \<open>__proto__\<close>,
  call \<open>toObject()\<close>, and insert the pairs of the object, listed in any order, into an
  empty collection with \<open>addCustom\<close>. Every insertion returns normally, the new
  collection has the size of the original, and \<open>hasKey\<close> agrees with the original on
  every key \<open>k\<close>. A plain object has string keys only: \<open>res[key] = value\<close> turns
  every other key into a string, so that such a key is not a key of the new collection
  and two keys with the same string become one property.
\<close>

theorem toObject_roundtrip_string_keys:
  assumes "wellformed c" and "list_all is_string_key (keys c)"
    and "c_map c0 = []"
    and "toObject ostr c = Return obj" and "mset ps = mset (Object_entries obj)"
  shows "fst (reinsert c0 ps) = Return ()
       \<and> size_bp (snd (reinsert c0 ps)) = size_bp c
       \<and> hasKey (snd (reinsert c0 ps)) k = hasKey c k"
proof -
  obtain ss where es: "c_map c = map (\<lambda>p. (Str (fst p), snd p)) ss"
    and np: "''__proto__'' \<notin> fst ` set ss"
    using string_keys_obtain [of "c_map c"] assms(2) by (auto simp: keys_def)
  have ks: "keys c = map Str (map fst ss)"
    by (simp add: keys_def es comp_def)
  have dss: "distinct (map fst ss)"
    using assms(1) ks by (metis wellformed_def distinct_map)
  have "toObject ostr c = Return (map (\<lambda>p. (PStr (fst p), snd p)) ss)"
    using Map_forEach_toObject [OF dss np, of "[]" ostr] by (simp add: toObject_def forEach_def es)
  with assms(4) have "Object_entries obj = ss"
    by (auto simp: Object_entries_strings)
  with assms(5) have perm: "mset ps = mset ss" by simp
  then have "mset (map fst ps) = mset (map fst ss)" by simp
  with dss have dps: "distinct (map fst ps)"
    by (metis mset_eq_imp_distinct_iff)
  let ?kvs = "map (\<lambda>p. (Str (fst p), snd p)) ps"
  have "map fst ?kvs = map Str (map fst ps)" by (simp add: comp_def)
  moreover have "distinct (map Str (map fst ps))"
    using dps by (subst distinct_map) (simp add: inj_on_def)
  ultimately have d: "distinct (map fst ?kvs)" by (simp only:)
  have u: "Undefined \<notin> fst ` set ?kvs" by auto
  have io: "fst (insert_in_order c0 ?kvs) = Return ()"
    and m: "c_map (snd (insert_in_order c0 ?kvs)) = ?kvs"
    using insert_in_order_fresh [OF d u, of c0] assms(3) by auto
  have len: "length ps = length ss"
    using perm by (rule mset_eq_length)
  have st: "set ps = set ss"
    using perm by (rule mset_eq_setD)
  have "fst ` set ?kvs = fst ` set (c_map c)"
    using st by (simp add: es image_image)
  with io m len show ?thesis
    by (simp add: reinsert_def size_bp_def Map_size_def hasKey_def Map_has_iff es)
qed

theorem toObject_roundtrip_string_keys_witness:
  "wellformed abc_collection \<and> list_all is_string_key (keys abc_collection)
   \<and> c_map empty_collection = []
   \<and> toObject plain_object_string abc_collection
       = Return [(PStr ''a'', Num 1), (PStr ''b'', Num 0), (PStr ''c'', Ref 7)]
   \<and> mset [(''c'', Ref 7), (''a'', Num 1), (''b'', Num 0)]
       = mset (Object_entries [(PStr ''a'', Num 1), (PStr ''b'', Num 0), (PStr ''c'', Ref 7)])
   \<and> fst (reinsert empty_collection [(''c'', Ref 7), (''a'', Num 1), (''b'', Num 0)]) = Return ()
   \<and> size_bp (snd (reinsert empty_collection [(''c'', Ref 7), (''a'', Num 1), (''b'', Num 0)])) = 3
   \<and> size_bp abc_collection = 3
   \<and> hasKey (snd (reinsert empty_collection [(''c'', Ref 7), (''a'', Num 1), (''b'', Num 0)]))
         (Str ''b'')
   \<and> hasKey abc_collection (Str ''b'')"
  using toObject_roundtrip_string_keys
    [of abc_collection empty_collection plain_object_string
        "[(PStr ''a'', Num 1), (PStr ''b'', Num 0), (PStr ''c'', Ref 7)]"
        "[(''c'', Ref 7), (''a'', Num 1), (''b'', Num 0)]" "Str ''b''"]
  by (simp add: wellformed_def keys_def abc_collection_def abc_entries_def empty_collection_def
      toObject_def forEach_def Object_set_def size_bp_def Map_size_def hasKey_def)

text \<open>
  C4 as stated fails on the collection with the two keys \<open>1\<close> (a number) and \<open>'1'\<close>
  (a string): \<open>toObject()\<close> has the single property \<open>'1'\<close>, so the collection built
  from it has size 1 where the original has size 2, and it has no key \<open>1\<close>, which the
  original has.
\<close>

theorem toObject_roundtrip_counterexample:
  "toObject plain_object_string mixed_keys = Return [(PStr ''1'', Str ''b'')]
   \<and> size_bp mixed_keys = 2
   \<and> hasKey mixed_keys (Num 1)
   \<and> size_bp (snd (reinsert empty_collection (Object_entries [(PStr ''1'', Str ''b'')]))) = 1
   \<and> \<not> hasKey (snd (reinsert empty_collection (Object_entries [(PStr ''1'', Str ''b'')])))
         (Num 1)"
  by (simp add: toObject_def forEach_def Object_set_def number_to_string_def
      nat_to_string.simps digit_char_def size_bp_def Map_size_def hasKey_def reinsert_def
      addCustom_def emit_def mixed_keys_def empty_collection_def)

subsection \<open>C5: \<open>add\<close> without a key extractor\<close>

text \<open>
  C5, as amended. On a collection constructed without a \<open>keyExtractor\<close>, \<open>add(value)\<close>
  throws for every value, and the collection is as it was. The error is the
  \<open>TypeError\<close> of calling \<open>undefined\<close> as a function: the source calls
  \<open>this._keyExtractor(value)\<close> without a check, and throws its
  \<open>IncompatibleConfigurationError\<close> nowhere.
\<close>

theorem add_without_keyExtractor:
  assumes "c_keyExtractor c = None"
  shows "add c v = (Throw TypeError, c)"
  using assms by (simp add: add_def)

theorem add_without_keyExtractor_witness:
  "c_keyExtractor one_to_five = None \<and> add one_to_five (Num 6) = (Throw TypeError, one_to_five)"
  using add_without_keyExtractor [of one_to_five "Num 6"]
  by (simp add: one_to_five_def)

text \<open>
  C5 as stated fails on the empty collection without a key extractor: \<open>add('x')\<close>
  throws a \<open>TypeError\<close>, which is no \<open>IncompatibleConfigurationError\<close>.
\<close>

theorem add_without_keyExtractor_counterexample:
  "add empty_collection (Str ''x'') = (Throw TypeError, empty_collection)"
  by (simp add: add_def empty_collection_def)

subsection \<open>C6: \<open>filter\<close>\<close>

text \<open>
  C6. For every collection \<open>c\<close> and callback \<open>fn\<close>, \<open>filter(fn)\<close> returns normally a new
  collection whose entries are exactly the entries of \<open>c\<close> on which \<open>fn\<close> returns a
  truthy value, in the order they have in \<open>c\<close>; it has the \<open>keyExtractor\<close> of \<open>c\<close>,
  its events are disabled and it has no emitter, whatever \<open>c\<close> has and whether or not
  the host has an emitter class; and \<open>c\<close> is the same after the call. Every collection
  is well formed: the constructor yields one and the methods keep it so.
\<close>

theorem filter_new_collection:
  assumes "wellformed c"
  shows "filter_bp EventCenter fn c
         = (Return \<lparr>c_keyExtractor = c_keyExtractor c, c_enableEvents = False, c_ec = None,
                     c_map = filter (\<lambda>e. truthy (fn (snd e) (fst e) c)) (keysAndValues c)\<rparr>, c)"
  using assms filter_bp_eq [of c EventCenter fn] by (simp add: wellformed_def)

theorem filter_new_collection_witness:
  "wellformed one_to_five
   \<and> filter_bp False greater_than_2 one_to_five
       = (Return \<lparr>c_keyExtractor = None, c_enableEvents = False, c_ec = None,
                   c_map = [(Num 3, Num 3), (Num 4, Num 4), (Num 5, Num 5)]\<rparr>, one_to_five)
   \<and> size_bp one_to_five = 5"
  using filter_new_collection [of one_to_five False greater_than_2]
  by (simp add: wellformed_def keys_def keysAndValues_def one_to_five_def greater_than_2_def
      size_bp_def Map_size_def)

subsection \<open>C7: removing a key twice\<close>

text \<open>
  C7. If a collection holds the entry \<open>k \<mapsto> v\<close>, the first \<open>removeKey(k)\<close> returns
  \<open>v\<close> and takes one entry away; a second \<open>removeKey(k)\<close> right after it returns
  \<open>undefined\<close> and leaves the collection, hence its \<open>size\<close>, as it is.
\<close>

theorem removeKey_twice:
  assumes "wellformed c" and "(k, v) \<in> set (keysAndValues c)"
  shows "fst (removeKey c k) = Return v
       \<and> size_bp (snd (removeKey c k)) = size_bp c - 1
       \<and> removeKey (snd (removeKey c k)) k = (Return Undefined, snd (removeKey c k))
       \<and> size_bp (snd (removeKey (snd (removeKey c k)) k)) = size_bp (snd (removeKey c k))"
proof -
  let ?c1 = "snd (removeKey c k)"
  from assms have d: "distinct (map fst (c_map c))" and e: "(k, v) \<in> set (c_map c)"
    by (simp_all add: wellformed_def keys_def keysAndValues_def)
  from e have h: "Map_has (c_map c) k"
    by (auto simp: Map_has_iff rev_image_eqI)
  have r1: "fst (removeKey c k) = Return v"
    using Map_get_entry [OF d e] by (simp add: removeKey_def Map_delete_def Let_def key_def)
  have m: "c_map ?c1 = Map_remove k (c_map c)"
    by (rule c_map_removeKey)
  have s1: "size_bp ?c1 = size_bp c - 1"
    using length_Map_remove [OF d h] m by (simp add: size_bp_def Map_size_def)
  from m have "\<not> hasKey ?c1 k" and "key ?c1 k = Undefined"
    by (simp_all add: hasKey_def key_def Map_has_remove Map_get_remove)
  with removeKey_absent [of ?c1 k]
  have "removeKey ?c1 k = (Return Undefined, ?c1)" by simp
  with r1 s1 show ?thesis by simp
qed

theorem removeKey_twice_witness:
  "wellformed abc_collection \<and> (Str ''b'', Num 0) \<in> set (keysAndValues abc_collection)
   \<and> fst (removeKey abc_collection (Str ''b'')) = Return (Num 0)
   \<and> size_bp (snd (removeKey abc_collection (Str ''b''))) = 2
   \<and> fst (removeKey (snd (removeKey abc_collection (Str ''b''))) (Str ''b'')) = Return Undefined
   \<and> size_bp (snd (removeKey (snd (removeKey abc_collection (Str ''b''))) (Str ''b''))) = 2"
  using removeKey_twice [of abc_collection "Str ''b''" "Num 0"]
  by (simp add: wellformed_def keys_def keysAndValues_def abc_collection_def abc_entries_def
      size_bp_def Map_size_def)

subsection \<open>C8: the empty collection\<close>

text \<open>
  C8. On a collection of size 0, \<open>first\<close>, \<open>last\<close>, \<open>lastIndex\<close>, \<open>random()\<close> and
  \<open>randomKey()\<close> are \<open>undefined\<close>, and \<open>pullRandom()\<close> returns \<open>undefined\<close> normally and
  leaves the collection as it is, whatever \<open>Math.random()\<close> would return.
\<close>

theorem empty_collection_accessors:
  assumes "size_bp c = 0"
  shows "first c = Undefined \<and> last_bp c = Undefined \<and> lastIndex c = Undefined
       \<and> random_bp r c = Undefined \<and> randomKey r c = Undefined
       \<and> pullRandom r c = (Return Undefined, c)"
proof -
  from assms have m: "c_map c = []" by (simp add: size_bp_def Map_size_def)
  then have "c\<lparr>c_map := []\<rparr> = c" by simp
  with m assms show ?thesis
    by (simp add: first_def iterator_def last_bp_def lastIndex_def random_bp_def randomKey_def
        pullRandom_def removeKey_def key_def Map_delete_def Let_def)
qed

theorem empty_collection_accessors_witness:
  "size_bp empty_collection = 0
   \<and> first empty_collection = Undefined \<and> last_bp empty_collection = Undefined
   \<and> lastIndex empty_collection = Undefined
   \<and> random_bp 0 empty_collection = Undefined \<and> randomKey 0 empty_collection = Undefined
   \<and> pullRandom 0 empty_collection = (Return Undefined, empty_collection)"
  using empty_collection_accessors [of empty_collection 0]
  by (simp add: size_bp_def Map_size_def empty_collection_def)

subsection \<open>C9: read-only properties\<close>

text \<open>
  C9. Assigning any value to \<open>size\<close>, \<open>lastIndex\<close>, \<open>first\<close>, \<open>last\<close>, \<open>keys\<close> or
  \<open>keysAndValues\<close> throws a \<open>ReadOnlyError\<close> whose message is the name of the property
  in quotes followed by \<open>is a read-only property.\<close>, and the collection is as it was.
\<close>

theorem readonly_setters:
  "set_size c x = (Throw (ReadOnlyError ([CHR 0x27] @ ''size'' @ [CHR 0x27] @ '' is a read-only property.'')), c)
   \<and> set_lastIndex c x = (Throw (ReadOnlyError ([CHR 0x27] @ ''lastIndex'' @ [CHR 0x27] @ '' is a read-only property.'')), c)
   \<and> set_first c x = (Throw (ReadOnlyError ([CHR 0x27] @ ''first'' @ [CHR 0x27] @ '' is a read-only property.'')), c)
   \<and> set_last c x = (Throw (ReadOnlyError ([CHR 0x27] @ ''last'' @ [CHR 0x27] @ '' is a read-only property.'')), c)
   \<and> set_keys c x = (Throw (ReadOnlyError ([CHR 0x27] @ ''keys'' @ [CHR 0x27] @ '' is a read-only property.'')), c)
   \<and> set_keysAndValues c x = (Throw (ReadOnlyError ([CHR 0x27] @ ''keysAndValues'' @ [CHR 0x27] @ '' is a read-only property.'')), c)"
  by (simp add: set_size_def set_lastIndex_def set_first_def set_last_def set_keys_def
      set_keysAndValues_def new_ReadOnlyError_def)

subsection \<open>C10: the constructor without a configuration\<close>

text \<open>
  C10. \<open>new BulletproofCollection()\<close>, without an argument, throws (a \<open>TypeError\<close>, from
  reading \<open>config.keyExtractor\<close>), whether or not the host has an emitter class; the
  constructor does not fall back on \<open>defaultBulletproofConfig\<close>. Passing that
  configuration gives the empty collection without key extractor and without events.
\<close>

theorem constructor_without_config:
  "new_BulletproofCollection EventCenter None = Throw TypeError
   \<and> new_BulletproofCollection EventCenter (Some defaultBulletproofConfig)
       = Return \<lparr>c_keyExtractor = None, c_enableEvents = False, c_ec = None, c_map = []\<rparr>"
  by (simp add: new_BulletproofCollection_def defaultBulletproofConfig_def reset_def)

end
